theory Spec2Isabelle
  imports Complex_Main "HOL-Library.Word"
begin

unbundle bit_operations_syntax

section \<open>Event masks, events and subscriber channels\<close>

text \<open>
  \<^verbatim>\<open>type EventMask uint32\<close> with one bit per event type; \<^verbatim>\<open>NoEvents\<close> is 0 and
  \<^verbatim>\<open>AllEvents\<close> is \<^verbatim>\<open>math.MaxUint32\<close>.
\<close>

type_synonym EventMask = "32 word"

definition NoEvents :: EventMask where "NoEvents = 0"
definition CloseEvents :: EventMask where "CloseEvents = push_bit 0 1"
definition DamagedEvents :: EventMask where "DamagedEvents = push_bit 1 1"
definition CursorMovedEvents :: EventMask where "CursorMovedEvents = push_bit 2 1"
definition CursorEnterEvents :: EventMask where "CursorEnterEvents = push_bit 3 1"
definition CursorExitEvents :: EventMask where "CursorExitEvents = push_bit 4 1"
definition MinimizedEvents :: EventMask where "MinimizedEvents = push_bit 5 1"
definition RestoredEvents :: EventMask where "RestoredEvents = push_bit 6 1"
definition GainedFocusEvents :: EventMask where "GainedFocusEvents = push_bit 7 1"
definition LostFocusEvents :: EventMask where "LostFocusEvents = push_bit 8 1"
definition MovedEvents :: EventMask where "MovedEvents = push_bit 9 1"
definition ResizedEvents :: EventMask where "ResizedEvents = push_bit 10 1"
definition FramebufferResizedEvents :: EventMask where "FramebufferResizedEvents = push_bit 11 1"
definition ItemsDroppedEvents :: EventMask where "ItemsDroppedEvents = push_bit 12 1"
definition AllEvents :: EventMask where "AllEvents = - 1"

text \<open>
  A float64 is its IEEE 754 bit pattern. Go's \<^verbatim>\<open>==\<close> on floats is \<open>f64_eq\<close>: a NaN
  equals nothing, and the two zeros are equal. \<^verbatim>\<open>math.Inf(-1)\<close> is \<open>f64_neg_inf\<close> and
  the constant \<^verbatim>\<open>-1\<close> is \<open>f64_minus_one\<close>. Floating-point subtraction is not
  computed here: the functions that subtract take it as the parameter \<open>fsub\<close>.
\<close>

type_synonym f64 = "64 word"

definition f64_abs_bits :: "f64 \<Rightarrow> f64" where
  "f64_abs_bits a = a AND 0x7FFFFFFFFFFFFFFF"

definition f64_isNaN :: "f64 \<Rightarrow> bool" where
  "f64_isNaN a = (0x7FF0000000000000 < f64_abs_bits a)"

definition f64_eq :: "f64 \<Rightarrow> f64 \<Rightarrow> bool" where
  "f64_eq a b = (\<not> f64_isNaN a \<and> \<not> f64_isNaN b \<and>
                 (a = b \<or> (f64_abs_bits a = 0 \<and> f64_abs_bits b = 0)))"

definition f64_neg_inf :: f64 where "f64_neg_inf = 0xFFF0000000000000"
definition f64_minus_one :: f64 where "f64_minus_one = 0xBFF0000000000000"
definition f64_NaN :: f64 where "f64_NaN = 0x7FF8000000000001"

text \<open>
  The events the window publishes. The timestamp \<^verbatim>\<open>T: time.Now()\<close> every event carries
  is left out.
\<close>

datatype Event =
    Close
  | Damaged
  | Minimized
  | Restored
  | GainedFocus
  | LostFocus
  | Moved int int
  | Resized int int
  | FramebufferResized int int
  | CursorMoved f64 f64 bool

text \<open>
  A channel \<^verbatim>\<open>chan<- Event\<close> is named by an identity (Go compares channels by
  identity) and is a bounded FIFO queue: \<open>cap\<close> is its buffer size and \<open>buf\<close> the
  events waiting in it. The receiving side is not part of the window code; a send
  inside \<^verbatim>\<open>select { case ch <- ev: default: }\<close> succeeds when the buffer has room and
  is skipped otherwise (\<open>try_send\<close>). Channels are taken to be open.
\<close>

type_synonym chan_id = nat

record chan =
  cap :: nat
  buf :: "Event list"

type_synonym chans = "chan_id \<Rightarrow> chan"

definition try_send :: "chans \<Rightarrow> chan_id \<Rightarrow> Event \<Rightarrow> chans" where
  "try_send cs c ev =
     (if length (buf (cs c)) < cap (cs c)
      then cs(c := (cs c)\<lparr>buf := buf (cs c) @ [ev]\<rparr>)
      else cs)"

text \<open>\<^verbatim>\<open>type notifier struct { EventMask; ch chan<- Event }\<close>\<close>

record notifier =
  EventMask :: EventMask
  ch :: chan_id

text \<open>
  A Go slice is a window on a backing array: \<open>arr\<close> is the array from the slice's
  first element up to its capacity and \<open>len\<close> the slice's length. Two slices built
  from one another share \<open>arr\<close>, which is what \<^verbatim>\<open>deleteNotifiers\<close> depends on.
\<close>

record 'a slice =
  arr :: "'a list"
  len :: nat

definition elems :: "'a slice \<Rightarrow> 'a list" where
  "elems s = take (len s) (arr s)"

definition nil_slice :: "'a slice" where
  "nil_slice = \<lparr>arr = [], len = 0\<rparr>"

text \<open>
  \<^verbatim>\<open>append(s, x)\<close>: written in place when the capacity allows, into a fresh array
  otherwise. The spare capacity a fresh array may get holds zero values that are
  overwritten before they are ever read, so it is not modelled.
\<close>

definition go_append :: "'a slice \<Rightarrow> 'a \<Rightarrow> 'a slice" where
  "go_append s x =
     (if len s < length (arr s)
      then \<lparr>arr = (arr s)[len s := x], len = len s + 1\<rparr>
      else \<lparr>arr = take (len s) (arr s) @ [x], len = len s + 1\<rparr>)"

datatype error =
    SliceBoundsOutOfRange
  | Panic string
  | Fatal string

section \<open>Properties, native calls and the effect trace\<close>

text \<open>
  Modelled from the spec: the type \<^verbatim>\<open>Props\<close> (its file is not among the sources).
  The spec's Property Set is a record of named fields; only the getters and setters
  the window code calls are needed, so a getter \<^verbatim>\<open>p.Size()\<close> is the field \<open>Size p\<close>
  and a setter \<^verbatim>\<open>p.SetSize(w, h)\<close> is the update \<open>p\<lparr>Size := (w, h)\<rparr>\<close>. Window
  coordinates are Go \<^verbatim>\<open>int\<close>, cursor coordinates \<^verbatim>\<open>float64\<close>.
\<close>

record Precision =
  RedBits :: "8 word"
  GreenBits :: "8 word"
  BlueBits :: "8 word"
  AlphaBits :: "8 word"
  DepthBits :: "8 word"
  StencilBits :: "8 word"
  Samples :: int

record Props =
  Title :: string
  Size :: "int \<times> int"
  Pos :: "int \<times> int"
  CursorPos :: "f64 \<times> f64"
  Visible :: bool
  Minimized_p :: bool
  Focused :: bool
  Resizable :: bool
  Decorated :: bool
  AlwaysOnTop :: bool
  VSync :: bool
  CursorGrabbed :: bool
  Fullscreen :: bool
  FramebufferSize :: "int \<times> int"
  ShouldClose :: bool
  Precision :: Precision

datatype CursorMode = CursorNormal | CursorDisabled

datatype Hint =
    Hint_Visible | Hint_Resizable | Hint_Decorated | Hint_AutoIconify | Hint_Floating
  | Hint_RedBits | Hint_GreenBits | Hint_BlueBits | Hint_AlphaBits | Hint_DepthBits
  | Hint_StencilBits | Hint_Samples | Hint_SRGBCapable

text \<open>The calls into the native library (GLFW) and the renderer that the code makes.\<close>

datatype native_call =
    SetTitle string
  | SetSize int int
  | SetPosition int int
  | SetCursorPosition f64 f64
  | Show
  | Hide
  | Iconify
  | Restore
  | SwapInterval int
  | SetInputMode_Cursor CursorMode
  | glfw_Init
  | glfw_Terminate
  | WindowHint Hint int
  | CreateWindow int int string bool
  | GetPrimaryMonitor
  | MakeContextCurrent
  | DetachCurrentContext
  | gl2_New
  | ExtensionSupported_call string
  | UpdateBounds int int
  | SwapBuffers
  | PollEvents
  | Destroy
  | SetClipboardString string
  | GetClipboardString
  | SetDebugOutput
  | glfwNewDevice

text \<open>
  What a function does besides changing the window record is its trace: the operations
  on the window's \<^verbatim>\<open>sync.RWMutex\<close>, the native calls, the places where the pair
  (\<^verbatim>\<open>w.props\<close>, \<^verbatim>\<open>w.last\<close>) is written (an assignment to the field or a setter called
  on it) and where \<^verbatim>\<open>Props()\<close> reads \<^verbatim>\<open>w.props\<close>, and the steps of \<^verbatim>\<open>Run\<close>.
\<close>

datatype which_props = Requested | Last

datatype effect =
    Lock
  | Unlock
  | RLock
  | RUnlock
  | Mutates which_props
  | Reads which_props
  | Native native_call
  | LockOSThread
  | UnlockOSThread
  | NewProps_call
  | Go_loader
  | Go_gfxLoop
  | InitCallbacks
  | Signal_loaderShutdown
  | Go_assetLoader
  | Go_pollEvents
  | Signal_assetExit
  | Signal_pollerExit

text \<open>
  What the native library and the renderer answer: the error (if any) of each call of
  \<^verbatim>\<open>doRun\<close> that can fail, the extensions advertised, the primary monitor's video mode
  (\<open>Inl\<close> its error, \<open>Inr\<close> the pair \<^verbatim>\<open>vm.Width\<close>, \<^verbatim>\<open>vm.Height\<close>) and the frame rate
  measured by the renderer's clock. A finite float64 is a rational number, and
  \<^verbatim>\<open>math.Ceil\<close> and the conversion to \<^verbatim>\<open>int\<close> are exact on it; a NaN or infinite frame
  rate, whose conversion Go leaves to the implementation, is outside the model.
\<close>

record glfw_env =
  Init_err :: "string option"
  CreateWindow_assets_err :: "string option"
  GetPrimaryMonitor_err :: "string option"
  CreateWindow_err :: "string option"
  gl2_New_err :: "string option"
  ExtensionSupported :: "string \<Rightarrow> bool"
  GetVideoMode :: "string + int \<times> int"
  FrameRate :: rat

section \<open>The window\<close>

text \<open>
  \<^verbatim>\<open>type glfwWindow struct\<close>: the fields the modelled functions read or write. The handles
  (\<^verbatim>\<open>window\<close>, \<^verbatim>\<open>assets\<close>, \<^verbatim>\<open>monitor\<close>, \<^verbatim>\<open>renderer\<close>, the watchers) are the native side,
  reached through the trace and \<open>glfw_env\<close>.
\<close>

record glfwWindow =
  props :: Props
  last_props :: Props
  lastCursorX :: f64
  lastCursorY :: f64
  extWGLEXTSwapControlTear :: bool
  extGLXEXTSwapControlTear :: bool
  notifiers :: "notifier slice"
  closed :: bool

text \<open>
  \<^verbatim>\<open>findNotifier\<close>: the index of the first notifier of \<^verbatim>\<open>w.notifiers\<close> whose channel is
  \<open>c\<close>; \<open>None\<close> is the source's \<^verbatim>\<open>-1\<close>.
\<close>

fun findNotifier_from :: "nat \<Rightarrow> notifier list \<Rightarrow> chan_id \<Rightarrow> nat option" where
  "findNotifier_from i [] c = None"
| "findNotifier_from i (ev # evs) c =
     (if ch ev = c then Some i else findNotifier_from (Suc i) evs c)"

definition findNotifier :: "notifier slice \<Rightarrow> chan_id \<Rightarrow> nat option" where
  "findNotifier ns c = findNotifier_from 0 (elems ns) c"

text \<open>
  The loop of \<^verbatim>\<open>deleteNotifiers\<close>. \<open>a\<close> is the backing array shared by \<^verbatim>\<open>w.notifiers\<close>
  (of length \<open>wlen\<close>, never reassigned inside the loop) and by the local \<^verbatim>\<open>s\<close> (of
  length \<open>slen\<close>). Each round searches \<^verbatim>\<open>w.notifiers\<close>, not \<^verbatim>\<open>s\<close>, and then evaluates
  \<^verbatim>\<open>append(s[:idx], s[idx+1:]...)\<close>: \<^verbatim>\<open>s[:idx]\<close> needs \<open>idx \<le> cap(s)\<close>, \<^verbatim>\<open>s[idx+1:]\<close>
  needs \<open>idx + 1 \<le> len(s)\<close> and panics otherwise, and the copy moves the elements
  \<open>idx+1 ..< slen\<close> one cell down in place, leaving the cells from \<open>slen - 1\<close> on as
  they were.
\<close>

function deleteNotifiers_loop ::
  "notifier list \<Rightarrow> nat \<Rightarrow> nat \<Rightarrow> chan_id \<Rightarrow> error + notifier slice" where
  "deleteNotifiers_loop a wlen slen c =
     (case findNotifier \<lparr>arr = a, len = wlen\<rparr> c of
        None \<Rightarrow> Inr \<lparr>arr = a, len = slen\<rparr>
      | Some idx \<Rightarrow>
          if length a < idx \<or> slen < idx + 1 then Inl SliceBoundsOutOfRange
          else deleteNotifiers_loop
                 (take idx a @ take (slen - (idx + 1)) (drop (idx + 1) a) @ drop (slen - 1) a)
                 wlen (slen - 1) c)"
  by pat_completeness auto
termination
  by (relation "measure (\<lambda>(a, wlen, slen, c). slen)") auto

declare deleteNotifiers_loop.simps [simp del]

definition deleteNotifiers :: "glfwWindow \<Rightarrow> chan_id \<Rightarrow> error + glfwWindow" where
  "deleteNotifiers w c =
     (case deleteNotifiers_loop (arr (notifiers w)) (len (notifiers w)) (len (notifiers w)) c of
        Inl e \<Rightarrow> Inl e
      | Inr s \<Rightarrow> Inr (w\<lparr>notifiers := s\<rparr>))"

text \<open>
  \<^verbatim>\<open>Notify\<close> works under \<^verbatim>\<open>w.Lock()\<close>; it does not touch the pair of properties, so
  its lock operations are not traced. A panic in \<open>deleteNotifiers\<close> is the result
  \<open>Inl\<close>.
\<close>

definition Notify :: "glfwWindow \<Rightarrow> chan_id \<Rightarrow> EventMask \<Rightarrow> error + glfwWindow" where
  "Notify w c m =
     (if m = NoEvents then deleteNotifiers w c
      else Inr (w\<lparr>notifiers := go_append (notifiers w) \<lparr>EventMask = m, ch = c\<rparr>\<rparr>))"

fun sendEvent_loop :: "notifier list \<Rightarrow> Event \<Rightarrow> EventMask \<Rightarrow> chans \<Rightarrow> chans" where
  "sendEvent_loop [] ev m cs = cs"
| "sendEvent_loop (nf # nfs) ev m cs =
     sendEvent_loop nfs ev m
       (if EventMask nf AND m \<noteq> 0 then try_send cs (ch nf) ev else cs)"

text \<open>
  \<^verbatim>\<open>sendEvent\<close> holds the read lock while it walks \<^verbatim>\<open>w.notifiers\<close>; it only reads the
  window, so it returns its trace and the channels.
\<close>

definition sendEvent :: "glfwWindow \<Rightarrow> Event \<Rightarrow> EventMask \<Rightarrow> chans \<Rightarrow> effect list \<times> chans" where
  "sendEvent w ev m cs = ([RLock, RUnlock], sendEvent_loop (elems (notifiers w)) ev m cs)"

text \<open>\<^verbatim>\<open>Props()\<close>: the trace and the value returned.\<close>

definition Props_get :: "glfwWindow \<Rightarrow> effect list \<times> Props" where
  "Props_get w = ([RLock, Reads Requested, RUnlock], props w)"

section \<open>The title\<close>

text \<open>\<^verbatim>\<open>fmt.Sprintf("%d", n)\<close>: the decimal digits of a Go \<^verbatim>\<open>int\<close>, with a sign when negative.\<close>

function decimal :: "nat \<Rightarrow> string" where
  "decimal n = (if n < 10 then [''0123456789'' ! n]
                else decimal (n div 10) @ [''0123456789'' ! (n mod 10)])"
  by pat_completeness auto
termination
  by (relation "measure id") auto

declare decimal.simps [simp del]

definition Sprintf_d :: "int \<Rightarrow> string" where
  "Sprintf_d n = (if n < 0 then CHR ''-'' # decimal (nat (- n)) else decimal (nat n))"

text \<open>
  \<^verbatim>\<open>strings.Replace(s, old, new, n)\<close> for \<open>n \<ge> 0\<close>: the first \<open>n\<close> non-overlapping
  occurrences of \<open>old\<close> are replaced, from the left. (An empty \<open>old\<close> matches before
  every character and at the end; the one call in the source passes \<^verbatim>\<open>"{FPS}"\<close>.)
\<close>

function strings_Replace :: "string \<Rightarrow> string \<Rightarrow> string \<Rightarrow> nat \<Rightarrow> string" where
  "strings_Replace [] old new n = (if old = [] \<and> 0 < n then new else [])"
| "strings_Replace (c # cs) old new n =
     (if n = 0 then c # cs
      else if old = [] then new @ c # strings_Replace cs old new (n - 1)
      else if take (length old) (c # cs) = old
           then new @ strings_Replace (drop (length old) (c # cs)) old new (n - 1)
      else c # strings_Replace cs old new n)"
  by pat_completeness auto
termination
  by (relation "measure (\<lambda>(s, old, new, n). length s)") auto

text \<open>
  \<^verbatim>\<open>updateTitle\<close>: the title passed to \<^verbatim>\<open>w.window.SetTitle\<close>, and the call itself. The
  caller holds the lock.
\<close>

definition title_text :: "glfw_env \<Rightarrow> glfwWindow \<Rightarrow> string" where
  "title_text g w =
     (let fps = Sprintf_d \<lceil>FrameRate g\<rceil> @ ''FPS''
      in strings_Replace (Title (props w)) ''{FPS}'' fps 1)"

definition updateTitle :: "glfw_env \<Rightarrow> glfwWindow \<Rightarrow> effect list" where
  "updateTitle g w = [Native (SetTitle (title_text g w))]"

section \<open>The reconciler\<close>

text \<open>
  Go's \<^verbatim>\<open>int\<close> (32 or 64 bits under the file's build tag) is modelled by \<open>int\<close>: the
  only arithmetic on it, the centring of the window, cannot leave the range of the
  type (\<open>centering_in_range\<close> below). Go's \<^verbatim>\<open>/\<close> truncates towards zero.
\<close>

definition go_quo :: "int \<Rightarrow> int \<Rightarrow> int" where
  "go_quo a b = (if (a < 0) = (b < 0) then \<bar>a\<bar> div \<bar>b\<bar> else - (\<bar>a\<bar> div \<bar>b\<bar>))"

text \<open>
  \<^verbatim>\<open>useProps\<close> is a sequence of blocks, one per property, each of the shape
  \<^verbatim>\<open>if force || requested != last { w.last.Set...; withoutLock(native call) }\<close>. Each
  block below is one of them, in the source's order, as a function from the window to
  its trace and the updated window; \<^verbatim>\<open>withoutLock(f)\<close> is \<open>Unlock\<close>, the call, \<open>Lock\<close>.
  The callbacks that a native call may trigger while the lock is released are
  separate steps (see the translator), not part of \<^verbatim>\<open>useProps\<close>.
\<close>

definition useProps_Size :: "bool \<Rightarrow> int \<Rightarrow> int \<Rightarrow> glfwWindow \<Rightarrow> effect list \<times> glfwWindow" where
  "useProps_Size force width height w =
     (let (lastWidth, lastHeight) = Size (last_props w) in
      if force \<or> width \<noteq> lastWidth \<or> height \<noteq> lastHeight
      then ([Mutates Last, Unlock, Native (SetSize width height), Lock],
            w\<lparr>last_props := (last_props w)\<lparr>Size := (width, height)\<rparr>\<rparr>)
      else ([], w))"

definition centered :: "glfw_env \<Rightarrow> int \<Rightarrow> int \<Rightarrow> int \<Rightarrow> int \<Rightarrow> int \<times> int" where
  "centered g width height x y =
     (if x = - 1 \<and> y = - 1
      then (case GetVideoMode g of
              Inl err \<Rightarrow> (x, y)
            | Inr (vmWidth, vmHeight) \<Rightarrow>
                (go_quo vmWidth 2 - go_quo width 2, go_quo vmHeight 2 - go_quo height 2))
      else (x, y))"

definition useProps_Pos ::
  "glfw_env \<Rightarrow> bool \<Rightarrow> int \<Rightarrow> int \<Rightarrow> glfwWindow \<Rightarrow> effect list \<times> glfwWindow" where
  "useProps_Pos g force width height w =
     (let (x, y) = Pos (props w); (lastX, lastY) = Pos (last_props w) in
      if force \<or> x \<noteq> lastX \<or> y \<noteq> lastY
      then (let (x', y') = centered g width height x y in
            ([Mutates Last, Unlock, Native (SetPosition x' y'), Lock],
             w\<lparr>last_props := (last_props w)\<lparr>Pos := (x, y)\<rparr>\<rparr>))
      else ([], w))"

definition useProps_CursorPos :: "bool \<Rightarrow> glfwWindow \<Rightarrow> effect list \<times> glfwWindow" where
  "useProps_CursorPos force w =
     (let (cursorX, cursorY) = CursorPos (props w);
          (lastCursorX, lastCursorY) = CursorPos (last_props w) in
      if force \<or> \<not> f64_eq cursorX lastCursorX \<or> \<not> f64_eq cursorY lastCursorY
      then (Mutates Last #
              (if \<not> f64_eq cursorX f64_minus_one \<and> \<not> f64_eq cursorY f64_minus_one
               then [Unlock, Native (SetCursorPosition cursorX cursorY), Lock]
               else []),
            w\<lparr>last_props := (last_props w)\<lparr>CursorPos := (cursorX, cursorY)\<rparr>\<rparr>)
      else ([], w))"

definition useProps_Visible :: "bool \<Rightarrow> glfwWindow \<Rightarrow> effect list \<times> glfwWindow" where
  "useProps_Visible force w =
     (let visible = Visible (props w) in
      if force \<or> Visible (last_props w) \<noteq> visible
      then ([Mutates Last, Unlock, Native (if visible then Show else Hide), Lock],
            w\<lparr>last_props := (last_props w)\<lparr>Visible := visible\<rparr>\<rparr>)
      else ([], w))"

definition useProps_Minimized :: "bool \<Rightarrow> glfwWindow \<Rightarrow> effect list \<times> glfwWindow" where
  "useProps_Minimized force w =
     (let minimized = Minimized_p (props w) in
      if force \<or> Minimized_p (last_props w) \<noteq> minimized
      then ([Mutates Last, Unlock, Native (if minimized then Iconify else Restore), Lock],
            w\<lparr>last_props := (last_props w)\<lparr>Minimized_p := minimized\<rparr>\<rparr>)
      else ([], w))"

definition swapInterval :: "glfwWindow \<Rightarrow> bool \<Rightarrow> int" where
  "swapInterval w vsync =
     (if vsync
      then (if extWGLEXTSwapControlTear w \<or> extGLXEXTSwapControlTear w then - 1 else 1)
      else 0)"

definition useProps_VSync :: "bool \<Rightarrow> glfwWindow \<Rightarrow> effect list \<times> glfwWindow" where
  "useProps_VSync force w =
     (let vsync = VSync (props w) in
      if force \<or> VSync (last_props w) \<noteq> vsync
      then ([Mutates Last, Native (SwapInterval (swapInterval w vsync))],
            w\<lparr>last_props := (last_props w)\<lparr>VSync := vsync\<rparr>\<rparr>)
      else ([], w))"

definition useProps_CursorGrabbed :: "bool \<Rightarrow> glfwWindow \<Rightarrow> effect list \<times> glfwWindow" where
  "useProps_CursorGrabbed force w =
     (let grabbed = CursorGrabbed (props w) in
      if force \<or> CursorGrabbed (last_props w) \<noteq> grabbed
      then ([Mutates Last, Unlock,
             Native (SetInputMode_Cursor (if grabbed then CursorDisabled else CursorNormal)), Lock],
            w\<lparr>last_props := (last_props w)\<lparr>CursorGrabbed := grabbed\<rparr>,
              lastCursorX := f64_neg_inf, lastCursorY := f64_neg_inf\<rparr>)
      else ([], w))"

text \<open>Running blocks one after the other: the traces are concatenated.\<close>

fun blocks :: "('s \<Rightarrow> 'e list \<times> 's) list \<Rightarrow> 's \<Rightarrow> 'e list \<times> 's" where
  "blocks [] s = ([], s)"
| "blocks (f # fs) s = (let (t, s') = f s; (t', s'') = blocks fs s' in (t @ t', s''))"

definition useProps :: "glfw_env \<Rightarrow> Props \<Rightarrow> bool \<Rightarrow> glfwWindow \<Rightarrow> effect list \<times> glfwWindow" where
  "useProps g p force w0 =
     (let w = w0\<lparr>props := p\<rparr>;
          (width, height) = Size (props w);
          (t, w') = blocks [useProps_Size force width height,
                            useProps_Pos g force width height,
                            useProps_CursorPos force,
                            useProps_Visible force,
                            useProps_Minimized force,
                            useProps_VSync force,
                            useProps_CursorGrabbed force] w
      in ([Lock, Mutates Requested] @ updateTitle g w @ t @ [Unlock], w'))"

text \<open>The native calls of a trace, in order.\<close>

fun native_calls :: "effect list \<Rightarrow> native_call list" where
  "native_calls [] = []"
| "native_calls (Native c # es) = c # native_calls es"
| "native_calls (e # es) = native_calls es"

section \<open>The translator: native callbacks\<close>

text \<open>
  Each callback registered by \<^verbatim>\<open>initCallbacks\<close> that stores into the pair, as a step
  from the window and the channels to the trace, the window and the channels. The
  setters are called between \<^verbatim>\<open>w.RLock()\<close> and \<^verbatim>\<open>w.RUnlock()\<close>; the event is published
  after the lock is released.
\<close>

definition SetIconifyCallback ::
  "bool \<Rightarrow> glfwWindow \<Rightarrow> chans \<Rightarrow> effect list \<times> glfwWindow \<times> chans" where
  "SetIconifyCallback iconify w cs =
     (let w' = w\<lparr>last_props := (last_props w)\<lparr>Minimized_p := iconify\<rparr>,
                 props := (props w)\<lparr>Minimized_p := iconify\<rparr>\<rparr>;
          (t, cs') = (if iconify then sendEvent w' Minimized MinimizedEvents cs
                      else sendEvent w' Restored RestoredEvents cs)
      in ([RLock, Mutates Last, Mutates Requested, RUnlock] @ t, w', cs'))"

definition SetFocusCallback ::
  "bool \<Rightarrow> glfwWindow \<Rightarrow> chans \<Rightarrow> effect list \<times> glfwWindow \<times> chans" where
  "SetFocusCallback focused w cs =
     (let w' = w\<lparr>last_props := (last_props w)\<lparr>Focused := focused\<rparr>,
                 props := (props w)\<lparr>Focused := focused\<rparr>\<rparr>;
          (t, cs') = (if focused then sendEvent w' GainedFocus GainedFocusEvents cs
                      else sendEvent w' LostFocus LostFocusEvents cs)
      in ([RLock, Mutates Last, Mutates Requested, RUnlock] @ t, w', cs'))"

definition SetPositionCallback ::
  "int \<Rightarrow> int \<Rightarrow> glfwWindow \<Rightarrow> chans \<Rightarrow> effect list \<times> glfwWindow \<times> chans" where
  "SetPositionCallback x y w cs =
     (let w' = w\<lparr>last_props := (last_props w)\<lparr>Pos := (x, y)\<rparr>,
                 props := (props w)\<lparr>Pos := (x, y)\<rparr>\<rparr>;
          (t, cs') = sendEvent w' (Moved x y) MovedEvents cs
      in ([RLock, Mutates Last, Mutates Requested, RUnlock] @ t, w', cs'))"

definition SetSizeCallback ::
  "int \<Rightarrow> int \<Rightarrow> glfwWindow \<Rightarrow> chans \<Rightarrow> effect list \<times> glfwWindow \<times> chans" where
  "SetSizeCallback width height w cs =
     (let w' = w\<lparr>last_props := (last_props w)\<lparr>Size := (width, height)\<rparr>,
                 props := (props w)\<lparr>Size := (width, height)\<rparr>\<rparr>;
          (t, cs') = sendEvent w' (Resized width height) ResizedEvents cs
      in ([RLock, Mutates Last, Mutates Requested, RUnlock] @ t, w', cs'))"

definition SetFramebufferSizeCallback ::
  "int \<Rightarrow> int \<Rightarrow> glfwWindow \<Rightarrow> chans \<Rightarrow> effect list \<times> glfwWindow \<times> chans" where
  "SetFramebufferSizeCallback width height w cs =
     (let w' = w\<lparr>last_props := (last_props w)\<lparr>FramebufferSize := (width, height)\<rparr>,
                 props := (props w)\<lparr>FramebufferSize := (width, height)\<rparr>\<rparr>;
          (t, cs') = sendEvent w' (FramebufferResized width height) FramebufferResizedEvents cs
      in ([RLock, Mutates Last, Mutates Requested, RUnlock, Native (UpdateBounds width height)] @ t,
          w', cs'))"

text \<open>
  The cursor callback. \<open>fsub\<close> is float64 subtraction. When the cursor is grabbed the
  previous sample is swapped with the new one and, unless both previous values are
  \<^verbatim>\<open>math.Inf(-1)\<close>, the difference is published; otherwise the position is stored and
  published as it is.
\<close>

definition SetCursorPositionCallback ::
  "(f64 \<Rightarrow> f64 \<Rightarrow> f64) \<Rightarrow> f64 \<Rightarrow> f64 \<Rightarrow> glfwWindow \<Rightarrow> chans \<Rightarrow> effect list \<times> glfwWindow \<times> chans" where
  "SetCursorPositionCallback fsub x y w cs =
     (let grabbed = CursorGrabbed (props w) in
      if grabbed
      then (let lastX = lastCursorX w;
                lastY = lastCursorY w;
                w' = w\<lparr>lastCursorX := x, lastCursorY := y\<rparr>
            in if f64_eq lastX f64_neg_inf \<and> f64_eq lastY f64_neg_inf
               then ([RLock, RUnlock], w', cs)
               else (let (t, cs') = sendEvent w' (CursorMoved (fsub x lastX) (fsub y lastY) grabbed)
                                      CursorMovedEvents cs
                     in ([RLock, RUnlock] @ t, w', cs')))
      else (let w' = w\<lparr>last_props := (last_props w)\<lparr>CursorPos := (x, y)\<rparr>,
                       props := (props w)\<lparr>CursorPos := (x, y)\<rparr>\<rparr>;
                (t, cs') = sendEvent w' (CursorMoved x y grabbed) CursorMovedEvents cs
            in ([RLock, Mutates Last, Mutates Requested, RUnlock] @ t, w', cs')))"

section \<open>The run loop\<close>

text \<open>
  \<^verbatim>\<open>doRun\<close> up to the start of its loop. \<^verbatim>\<open>log.Fatal\<close> ends the process: the result is
  \<open>Inl (Fatal err)\<close> with the trace so far, and no deferred call runs. \<open>newProps\<close> is
  the value of \<^verbatim>\<open>NewProps()\<close>, whose code is not among the sources.
\<close>

definition intBool :: "bool \<Rightarrow> int" where
  "intBool b = (if b then 1 else 0)"

definition hints :: "Props \<Rightarrow> effect list" where
  "hints p =
     (let prec = Precision p in
      map Native
        [WindowHint Hint_Visible 0,
         WindowHint Hint_Resizable (intBool (Resizable p)),
         WindowHint Hint_Decorated (intBool (Decorated p)),
         WindowHint Hint_AutoIconify 1,
         WindowHint Hint_Floating (intBool (AlwaysOnTop p)),
         WindowHint Hint_RedBits (uint (RedBits prec)),
         WindowHint Hint_GreenBits (uint (GreenBits prec)),
         WindowHint Hint_BlueBits (uint (BlueBits prec)),
         WindowHint Hint_AlphaBits (uint (AlphaBits prec)),
         WindowHint Hint_DepthBits (uint (DepthBits prec)),
         WindowHint Hint_StencilBits (uint (StencilBits prec)),
         WindowHint Hint_Samples (Samples prec),
         WindowHint Hint_SRGBCapable 1])"

definition new_glfwWindow :: "glfw_env \<Rightarrow> Props \<Rightarrow> Props \<Rightarrow> glfwWindow" where
  "new_glfwWindow g newProps p =
     \<lparr>props = p, last_props = newProps, lastCursorX = 0, lastCursorY = 0,
      extWGLEXTSwapControlTear = ExtensionSupported g ''WGL_EXT_swap_control_tear'',
      extGLXEXTSwapControlTear = ExtensionSupported g ''GLX_EXT_swap_control_tear'',
      notifiers = nil_slice, closed = False\<rparr>"

definition doRun_setup :: "glfw_env \<Rightarrow> Props \<Rightarrow> Props \<Rightarrow> effect list \<times> (error + glfwWindow)" where
  "doRun_setup g newProps p =
     (let t1 = [Native glfw_Init] in
      case Init_err g of Some err \<Rightarrow> (t1, Inl (Fatal err)) | None \<Rightarrow>
     (let t2 = t1 @ [Native (WindowHint Hint_Visible 0), Native (CreateWindow 32 32 ''assets'' False)] in
      case CreateWindow_assets_err g of Some err \<Rightarrow> (t2, Inl (Fatal err)) | None \<Rightarrow>
     (let t3 = t2 @ [Native GetPrimaryMonitor] in
      case GetPrimaryMonitor_err g of Some err \<Rightarrow> (t3, Inl (Fatal err)) | None \<Rightarrow>
     (let (width, height) = Size p;
          t4 = t3 @ hints p @ [Native (CreateWindow width height (Title p) (Fullscreen p))] in
      case CreateWindow_err g of Some err \<Rightarrow> (t4, Inl (Fatal err)) | None \<Rightarrow>
     (let t5 = t4 @ [Native MakeContextCurrent, Native gl2_New] in
      case gl2_New_err g of Some err \<Rightarrow> (t5, Inl (Fatal err)) | None \<Rightarrow>
     (let t6 = t5 @ [Native SetDebugOutput, Go_loader, NewProps_call,
                     Native (ExtensionSupported_call ''WGL_EXT_swap_control_tear''),
                     Native (ExtensionSupported_call ''GLX_EXT_swap_control_tear''),
                     InitCallbacks];
          (t, w) = useProps g p True (new_glfwWindow g newProps p)
      in (t6 @ t @ [Go_gfxLoop], Inr w)))))))"





text \<open>
  \<^verbatim>\<open>Run\<close>: \<open>gfxLoop\<close> and \<open>p\<close> are \<open>None\<close> when nil. The deferred
  \<^verbatim>\<open>runtime.UnlockOSThread\<close> runs when the function panics. With a loop function the
  result is that of \<open>doRun_setup\<close>, after which \<^verbatim>\<open>doRun\<close> is in its loop.
\<close>

definition Run ::
  "glfw_env \<Rightarrow> Props \<Rightarrow> 'g option \<Rightarrow> Props option \<Rightarrow> effect list \<times> (error + glfwWindow)" where
  "Run g newProps gfxLoop p =
     (let (t0, p') = (case p of None \<Rightarrow> ([NewProps_call], newProps) | Some q \<Rightarrow> ([], q)) in
      case gfxLoop of
        None \<Rightarrow> (LockOSThread # t0 @ [UnlockOSThread],
                 Inl (Panic ''window: nil graphics loop function!''))
      | Some f \<Rightarrow> (let (t, r) = doRun_setup g newProps p' in (LockOSThread # t0 @ t, r)))"

section \<open>Initialisation and teardown of the native library\<close>

text \<open>
  \<^verbatim>\<open>doInit\<close> and \<^verbatim>\<open>doExit\<close> on the global flag \<^verbatim>\<open>glfwInit\<close>. \<open>init_env\<close> holds the error
  (if any) of each call that can fail; \<open>assetLoader_err\<close> is the error the asset
  loader sends back over \<^verbatim>\<open>asset.exit\<close>. The result is the trace, the error returned
  (\<open>None\<close> is nil) and the flag afterwards.
\<close>

record init_env =
  glfw_Init_err :: "string option"
  WindowHint_err :: "string option"
  CreateWindow_asset_err :: "string option"
  glfwNewDevice_err :: "string option"
  assetLoader_err :: "string option"
  Terminate_err :: "string option"

definition doInit :: "init_env \<Rightarrow> bool \<Rightarrow> effect list \<times> string option \<times> bool" where
  "doInit e glfwInit =
     (if glfwInit then ([], None, glfwInit)
      else let t1 = [Native glfw_Init] in
      case glfw_Init_err e of Some err \<Rightarrow> (t1, Some err, glfwInit) | None \<Rightarrow>
     (let t2 = t1 @ [Native (WindowHint Hint_Visible 0)] in
      case WindowHint_err e of Some err \<Rightarrow> (t2, Some err, glfwInit) | None \<Rightarrow>
     (let t3 = t2 @ [Native (CreateWindow 128 128 ''assets'' False)] in
      case CreateWindow_asset_err e of Some err \<Rightarrow> (t3, Some err, glfwInit) | None \<Rightarrow>
     (let t4 = t3 @ [Native MakeContextCurrent, Native glfwNewDevice] in
      case glfwNewDevice_err e of Some err \<Rightarrow> (t4, Some err, glfwInit) | None \<Rightarrow>
        (t4 @ [Native DetachCurrentContext, Go_assetLoader, Go_pollEvents], None, True)))))"

definition doExit :: "init_env \<Rightarrow> bool \<Rightarrow> effect list \<times> string option \<times> bool" where
  "doExit e glfwInit =
     (if \<not> glfwInit then ([], None, glfwInit)
      else case assetLoader_err e of
             Some err \<Rightarrow> ([Signal_assetExit], Some err, glfwInit)
           | None \<Rightarrow> ([Signal_assetExit, Signal_pollerExit, Native glfw_Terminate],
                      Terminate_err e, False))"

section \<open>Notions used to state the properties\<close>

text \<open>
  Go's \<^verbatim>\<open>cursorX != lastCursorX || cursorY != lastCursorY\<close> on two pairs of float64
  values.
\<close>

definition cursor_differs :: "f64 \<times> f64 \<Rightarrow> f64 \<times> f64 \<Rightarrow> bool" where
  "cursor_differs a b = (\<not> f64_eq (fst a) (fst b) \<or> \<not> f64_eq (snd a) (snd b))"

fun is_SetPosition :: "native_call \<Rightarrow> bool" where
  "is_SetPosition (SetPosition x y) = True"
| "is_SetPosition c = False"


text \<open>
  The lock a function holds along its own trace, and the discipline a trace follows:
  \<open>lock_discipline ok st tr\<close> says that every step \<open>e\<close> of \<open>tr\<close>, started with the lock
  in state \<open>st\<close>, is allowed by \<open>ok\<close> in the lock state it is taken in. The spec's rule
  is \<open>spec_guard\<close>: a write to the pair needs the write lock, a read needs some lock.
  \<open>read_guard\<close> is the rule the callbacks follow: reads and setter calls under the
  read lock.
\<close>

datatype lock_state = Unlocked | ReadLocked | WriteLocked

fun lock_after :: "lock_state \<Rightarrow> effect \<Rightarrow> lock_state" where
  "lock_after st Lock = WriteLocked"
| "lock_after st Unlock = Unlocked"
| "lock_after st RLock = ReadLocked"
| "lock_after st RUnlock = Unlocked"
| "lock_after st e = st"

fun spec_guard :: "effect \<Rightarrow> lock_state \<Rightarrow> bool" where
  "spec_guard (Mutates x) st = (st = WriteLocked)"
| "spec_guard (Reads x) st = (st = ReadLocked \<or> st = WriteLocked)"
| "spec_guard e st = True"

fun read_guard :: "effect \<Rightarrow> lock_state \<Rightarrow> bool" where
  "read_guard (Mutates x) st = (st = ReadLocked)"
| "read_guard (Reads x) st = (st = ReadLocked)"
| "read_guard e st = True"

fun lock_discipline :: "(effect \<Rightarrow> lock_state \<Rightarrow> bool) \<Rightarrow> lock_state \<Rightarrow> effect list \<Rightarrow> bool" where
  "lock_discipline ok st [] = True"
| "lock_discipline ok st (e # es) = (ok e st \<and> lock_discipline ok (lock_after st e) es)"

text \<open>
  A block of \<^verbatim>\<open>useProps\<close> keeps the write lock: started with the write lock held, its
  trace follows the spec's rule and ends with the write lock held again.
\<close>

definition keeps_write_lock :: "(glfwWindow \<Rightarrow> effect list \<times> glfwWindow) \<Rightarrow> bool" where
  "keeps_write_lock f =
     (\<forall>w. lock_discipline spec_guard WriteLocked (fst (f w)) \<and>
          foldl lock_after WriteLocked (fst (f w)) = WriteLocked)"

text \<open>Concrete values on which the properties are exercised.\<close>

definition demo_precision :: Precision where
  "demo_precision = \<lparr>RedBits = 8, GreenBits = 8, BlueBits = 8, AlphaBits = 8, DepthBits = 24,
                      StencilBits = 0, Samples = 0\<rparr>"

definition demo_props :: Props where
  "demo_props = \<lparr>Title = ''Game {FPS}'', Size = (800, 600), Pos = (- 1, - 1),
                  CursorPos = (f64_minus_one, f64_minus_one), Visible = True, Minimized_p = False,
                  Focused = True, Resizable = True, Decorated = True, AlwaysOnTop = False,
                  VSync = True, CursorGrabbed = True, Fullscreen = False,
                  FramebufferSize = (800, 600), ShouldClose = False, Precision = demo_precision\<rparr>"

definition demo_env :: glfw_env where
  "demo_env = \<lparr>Init_err = None, CreateWindow_assets_err = None, GetPrimaryMonitor_err = None,
                CreateWindow_err = None, gl2_New_err = None,
                ExtensionSupported = (\<lambda>name. name = ''GLX_EXT_swap_control_tear''),
                GetVideoMode = Inr (1920, 1080), FrameRate = 42\<rparr>"

text \<open>A window whose last known state has the cursor free while \<open>demo_props\<close> grabs it.\<close>

definition demo_window :: glfwWindow where
  "demo_window = new_glfwWindow demo_env (demo_props\<lparr>CursorGrabbed := False\<rparr>) demo_props"

definition full_chans :: chans where
  "full_chans = (\<lambda>c. \<lparr>cap = 1, buf = [Damaged]\<rparr>)"

definition empty_chans :: chans where
  "empty_chans = (\<lambda>c. \<lparr>cap = 8, buf = []\<rparr>)"

definition one_subscriber :: "notifier slice" where
  "one_subscriber = \<lparr>arr = [\<lparr>EventMask = AllEvents, ch = 7\<rparr>], len = 1\<rparr>"

definition demo_init_env :: init_env where
  "demo_init_env = \<lparr>glfw_Init_err = None, WindowHint_err = None, CreateWindow_asset_err = None,
                     glfwNewDevice_err = None, assetLoader_err = None, Terminate_err = None\<rparr>"

section \<open>Auxiliary facts\<close>

lemma native_calls_append: "native_calls (a @ b) = native_calls a @ native_calls b"
  by (induction a rule: native_calls.induct) simp_all

lemma fst_blocks_Cons: "fst (blocks (f # fs) s) = fst (f s) @ fst (blocks fs (snd (f s)))"
  by (simp add: split_def Let_def)

lemma snd_blocks_Cons: "snd (blocks (f # fs) s) = snd (blocks fs (snd (f s)))"
  by (simp add: split_def Let_def)

lemma blocks_Nil: "fst (blocks [] s) = []" "snd (blocks [] s) = s"
  by simp_all

declare blocks.simps [simp del]

lemmas blocks_fst_snd = fst_blocks_Cons snd_blocks_Cons blocks_Nil

lemma fst_useProps:
  "fst (useProps g p force w) =
     [Lock, Mutates Requested] @ updateTitle g (w\<lparr>props := p\<rparr>) @
     fst (blocks [useProps_Size force (fst (Size p)) (snd (Size p)),
                  useProps_Pos g force (fst (Size p)) (snd (Size p)),
                  useProps_CursorPos force, useProps_Visible force, useProps_Minimized force,
                  useProps_VSync force, useProps_CursorGrabbed force] (w\<lparr>props := p\<rparr>)) @ [Unlock]"
  by (simp add: useProps_def split_def Let_def )

lemma snd_useProps:
  "snd (useProps g p force w) =
     snd (blocks [useProps_Size force (fst (Size p)) (snd (Size p)),
                  useProps_Pos g force (fst (Size p)) (snd (Size p)),
                  useProps_CursorPos force, useProps_Visible force, useProps_Minimized force,
                  useProps_VSync force, useProps_CursorGrabbed force] (w\<lparr>props := p\<rparr>))"
  by (simp add: useProps_def split_def Let_def )

lemma Size_calls:
  "native_calls (fst (useProps_Size force width height w)) =
     (if force \<or> (width, height) \<noteq> Size (last_props w) then [SetSize width height] else [])"
  by (auto simp: useProps_Size_def split_def Let_def prod_eq_iff)

lemma Size_state:
  "snd (useProps_Size force width height w) =
     w\<lparr>last_props := (last_props w)\<lparr>Size := (width, height)\<rparr>\<rparr>"
  by (auto simp: useProps_Size_def split_def Let_def prod_eq_iff)

lemma Pos_calls:
  "native_calls (fst (useProps_Pos g force width height w)) =
     (if force \<or> Pos (props w) \<noteq> Pos (last_props w)
      then [SetPosition (fst (centered g width height (fst (Pos (props w))) (snd (Pos (props w)))))
                        (snd (centered g width height (fst (Pos (props w))) (snd (Pos (props w)))))]
      else [])"
  by (auto simp: useProps_Pos_def split_def Let_def prod_eq_iff)

lemma Pos_state:
  "snd (useProps_Pos g force width height w) =
     w\<lparr>last_props := (last_props w)\<lparr>Pos := Pos (props w)\<rparr>\<rparr>"
  by (auto simp: useProps_Pos_def split_def Let_def prod_eq_iff)


lemma CursorPos_calls:
  "native_calls (fst (useProps_CursorPos force w)) =
     (if (force \<or> cursor_differs (CursorPos (props w)) (CursorPos (last_props w))) \<and>
         \<not> f64_eq (fst (CursorPos (props w))) f64_minus_one \<and>
         \<not> f64_eq (snd (CursorPos (props w))) f64_minus_one
      then [SetCursorPosition (fst (CursorPos (props w))) (snd (CursorPos (props w)))]
      else [])"
  by (auto simp: useProps_CursorPos_def split_def Let_def cursor_differs_def)

lemma CursorPos_state:
  "snd (useProps_CursorPos force w) =
     w\<lparr>last_props := (last_props w)\<lparr>CursorPos :=
        (if force \<or> cursor_differs (CursorPos (props w)) (CursorPos (last_props w))
         then CursorPos (props w) else CursorPos (last_props w))\<rparr>\<rparr>"
  by (auto simp: useProps_CursorPos_def split_def Let_def cursor_differs_def)

lemma Visible_calls:
  "native_calls (fst (useProps_Visible force w)) =
     (if force \<or> Visible (props w) \<noteq> Visible (last_props w)
      then [if Visible (props w) then Show else Hide] else [])"
  by (auto simp: useProps_Visible_def Let_def)

lemma Visible_state:
  "snd (useProps_Visible force w) =
     w\<lparr>last_props := (last_props w)\<lparr>Visible := Visible (props w)\<rparr>\<rparr>"
  by (auto simp: useProps_Visible_def Let_def)

lemma Minimized_calls:
  "native_calls (fst (useProps_Minimized force w)) =
     (if force \<or> Minimized_p (props w) \<noteq> Minimized_p (last_props w)
      then [if Minimized_p (props w) then Iconify else Restore] else [])"
  by (auto simp: useProps_Minimized_def Let_def)

lemma Minimized_state:
  "snd (useProps_Minimized force w) =
     w\<lparr>last_props := (last_props w)\<lparr>Minimized_p := Minimized_p (props w)\<rparr>\<rparr>"
  by (auto simp: useProps_Minimized_def Let_def)

lemma VSync_calls:
  "native_calls (fst (useProps_VSync force w)) =
     (if force \<or> VSync (props w) \<noteq> VSync (last_props w)
      then [SwapInterval (swapInterval w (VSync (props w)))] else [])"
  by (auto simp: useProps_VSync_def Let_def)

lemma VSync_state:
  "snd (useProps_VSync force w) =
     w\<lparr>last_props := (last_props w)\<lparr>VSync := VSync (props w)\<rparr>\<rparr>"
  by (auto simp: useProps_VSync_def Let_def)

lemma CursorGrabbed_calls:
  "native_calls (fst (useProps_CursorGrabbed force w)) =
     (if force \<or> CursorGrabbed (props w) \<noteq> CursorGrabbed (last_props w)
      then [SetInputMode_Cursor (if CursorGrabbed (props w) then CursorDisabled else CursorNormal)]
      else [])"
  by (auto simp: useProps_CursorGrabbed_def Let_def)

lemma CursorGrabbed_state:
  "snd (useProps_CursorGrabbed force w) =
     w\<lparr>last_props := (last_props w)\<lparr>CursorGrabbed := CursorGrabbed (props w)\<rparr>,
       lastCursorX := (if force \<or> CursorGrabbed (props w) \<noteq> CursorGrabbed (last_props w)
                       then f64_neg_inf else lastCursorX w),
       lastCursorY := (if force \<or> CursorGrabbed (props w) \<noteq> CursorGrabbed (last_props w)
                       then f64_neg_inf else lastCursorY w)\<rparr>"
  by (auto simp: useProps_CursorGrabbed_def Let_def)

lemmas block_calls = Size_calls Pos_calls CursorPos_calls Visible_calls Minimized_calls VSync_calls
  CursorGrabbed_calls
lemmas block_states = Size_state Pos_state CursorPos_state Visible_state Minimized_state VSync_state
  CursorGrabbed_state

lemma useProps_calls:
  "native_calls (fst (useProps g p force w)) =
     SetTitle (title_text g (w\<lparr>props := p\<rparr>)) #
     (if force \<or> Size p \<noteq> Size (last_props w) then [SetSize (fst (Size p)) (snd (Size p))] else []) @
     (if force \<or> Pos p \<noteq> Pos (last_props w)
      then [SetPosition (fst (centered g (fst (Size p)) (snd (Size p)) (fst (Pos p)) (snd (Pos p))))
                        (snd (centered g (fst (Size p)) (snd (Size p)) (fst (Pos p)) (snd (Pos p))))]
      else []) @
     (if (force \<or> cursor_differs (CursorPos p) (CursorPos (last_props w))) \<and>
         \<not> f64_eq (fst (CursorPos p)) f64_minus_one \<and> \<not> f64_eq (snd (CursorPos p)) f64_minus_one
      then [SetCursorPosition (fst (CursorPos p)) (snd (CursorPos p))] else []) @
     (if force \<or> Visible p \<noteq> Visible (last_props w)
      then [if Visible p then Show else Hide] else []) @
     (if force \<or> Minimized_p p \<noteq> Minimized_p (last_props w)
      then [if Minimized_p p then Iconify else Restore] else []) @
     (if force \<or> VSync p \<noteq> VSync (last_props w)
      then [SwapInterval (swapInterval w (VSync p))] else []) @
     (if force \<or> CursorGrabbed p \<noteq> CursorGrabbed (last_props w)
      then [SetInputMode_Cursor (if CursorGrabbed p then CursorDisabled else CursorNormal)] else [])"
  by (simp add: fst_useProps native_calls_append blocks_fst_snd block_calls
      block_states updateTitle_def swapInterval_def split del: if_split cong: if_cong)


lemma useProps_last:
  "props (snd (useProps g p force w)) = p"
  "Size (last_props (snd (useProps g p force w))) = Size p"
  "Pos (last_props (snd (useProps g p force w))) = Pos p"
  "Visible (last_props (snd (useProps g p force w))) = Visible p"
  "Minimized_p (last_props (snd (useProps g p force w))) = Minimized_p p"
  "VSync (last_props (snd (useProps g p force w))) = VSync p"
  "CursorGrabbed (last_props (snd (useProps g p force w))) = CursorGrabbed p"
  "CursorPos (last_props (snd (useProps g p force w))) =
     (if force \<or> cursor_differs (CursorPos p) (CursorPos (last_props w)) then CursorPos p
      else CursorPos (last_props w))"
  by (simp_all add: snd_useProps blocks_fst_snd block_states split del: if_split cong: if_cong)

lemma useProps_other:
  "extWGLEXTSwapControlTear (snd (useProps g p force w)) = extWGLEXTSwapControlTear w"
  "extGLXEXTSwapControlTear (snd (useProps g p force w)) = extGLXEXTSwapControlTear w"
  "notifiers (snd (useProps g p force w)) = notifiers w"
  "Title (last_props (snd (useProps g p force w))) = Title (last_props w)"
  by (simp_all add: snd_useProps blocks_fst_snd block_states split del: if_split cong: if_cong)

lemma useProps_grab_baseline:
  "force \<or> CursorGrabbed p \<noteq> CursorGrabbed (last_props w) \<Longrightarrow>
   lastCursorX (snd (useProps g p force w)) = f64_neg_inf \<and>
   lastCursorY (snd (useProps g p force w)) = f64_neg_inf"
  by (simp add: snd_useProps blocks_fst_snd block_states split del: if_split cong: if_cong)

lemma f64_eq_refl: "\<not> f64_isNaN a \<Longrightarrow> f64_eq a a"
  by (simp add: f64_eq_def)

lemma useProps_rerun:
  assumes "\<not> f64_isNaN (fst (CursorPos p))" "\<not> f64_isNaN (snd (CursorPos p))"
  shows "native_calls (fst (useProps g p False (snd (useProps g p force w)))) =
           [SetTitle (title_text g (w\<lparr>props := p\<rparr>))]"
proof -
  let ?w' = "snd (useProps g p force w)"
  have c: "\<not> cursor_differs (CursorPos p) (CursorPos (last_props ?w'))"
    using assms by (auto simp: useProps_last cursor_differs_def f64_eq_refl)
  have t: "title_text g (?w'\<lparr>props := p\<rparr>) = title_text g (w\<lparr>props := p\<rparr>)"
    by (simp add: title_text_def)
  show ?thesis
    unfolding useProps_calls [of g p False ?w'] using c t
    by (simp add: useProps_last(2-7))
qed


lemma try_send_full: "cap (cs c) \<le> length (buf (cs c)) \<Longrightarrow> try_send cs d ev c = cs c"
  by (auto simp: try_send_def)

lemma sendEvent_loop_full:
  "cap (cs c) \<le> length (buf (cs c)) \<Longrightarrow> sendEvent_loop nfs ev m cs c = cs c"
proof (induction nfs arbitrary: cs)
  case Nil
  then show ?case by simp
next
  case (Cons nf nfs)
  define cs' where "cs' = (if EventMask nf AND m \<noteq> 0 then try_send cs (ch nf) ev else cs)"
  have eq: "cs' c = cs c" using Cons.prems by (simp add: cs'_def try_send_full)
  then have "cap (cs' c) \<le> length (buf (cs' c))" using Cons.prems by simp
  then have "sendEvent_loop nfs ev m cs' c = cs' c" by (rule Cons.IH)
  then show ?case using eq by (simp add: cs'_def)
qed

lemma findNotifier_from_Some:
  "n < length xs \<Longrightarrow> ch (xs ! n) = c \<Longrightarrow> \<exists>idx. findNotifier_from i xs c = Some idx"
proof (induction xs arbitrary: i n)
  case Nil then show ?case by simp
next
  case (Cons x xs)
  show ?case
  proof (cases "ch x = c")
    case True then show ?thesis by simp
  next
    case False
    with Cons.prems obtain k where "n = Suc k" by (cases n) auto
    with Cons.prems Cons.IH[of k "Suc i"] False show ?thesis by simp
  qed
qed

lemma deleteNotifiers_loop_panics:
  "0 < wlen \<Longrightarrow> wlen \<le> length a \<Longrightarrow> slen \<le> wlen \<Longrightarrow> ch (a ! (wlen - 1)) = c \<Longrightarrow>
   deleteNotifiers_loop a wlen slen c = Inl SliceBoundsOutOfRange"
proof (induction a wlen slen c rule: deleteNotifiers_loop.induct)
  case (1 a wlen slen c)
  have l: "wlen - 1 < length (take wlen a)" using "1.prems" by simp
  have e: "ch (take wlen a ! (wlen - 1)) = c" using "1.prems" by simp
  from findNotifier_from_Some[OF l e, of 0]
  obtain idx where idx: "findNotifier \<lparr>arr = a, len = wlen\<rparr> c = Some idx"
    by (auto simp: findNotifier_def elems_def)
  show ?case
  proof (cases "length a < idx \<or> slen < idx + 1")
    case True
    with idx show ?thesis by (subst deleteNotifiers_loop.simps) simp
  next
    case False
    define a' where "a' = take idx a @ take (slen - (idx + 1)) (drop (idx + 1) a) @ drop (slen - 1) a"
    have len: "wlen \<le> length a'" using False "1.prems" by (simp add: a'_def)
    define pre where "pre = take idx a @ take (slen - (idx + 1)) (drop (idx + 1) a)"
    have lp: "length pre = slen - 1" using False "1.prems" by (simp add: pre_def)
    have "a' ! (wlen - 1) = (pre @ drop (slen - 1) a) ! (wlen - 1)"
      by (simp add: a'_def pre_def)
    also have "\<dots> = drop (slen - 1) a ! (wlen - 1 - (slen - 1))"
      using lp "1.prems" by (simp add: nth_append)
    also have "\<dots> = a ! (wlen - 1)"
      using False "1.prems" by simp
    finally have nth: "ch (a' ! (wlen - 1)) = c" using "1.prems" by simp
    have sl: "slen - 1 \<le> wlen" using "1.prems" by simp
    have "deleteNotifiers_loop a' wlen (slen - 1) c = Inl SliceBoundsOutOfRange"
      unfolding a'_def
      by (rule "1.IH"[OF idx False "1.prems"(1) len[unfolded a'_def] sl nth[unfolded a'_def]])
    with idx False show ?thesis by (subst deleteNotifiers_loop.simps) (simp add: a'_def)
  qed
qed

lemma go_append_props:
  assumes "len s \<le> length (arr s)"
  shows "len (go_append s x) = len s + 1"
    and "len (go_append s x) \<le> length (arr (go_append s x))"
    and "arr (go_append s x) ! len s = x"
    and "elems (go_append s x) = elems s @ [x]"
  using assms
  by (auto simp: go_append_def elems_def take_Suc_conv_app_nth)

lemma sendEvent_loop_append:
  "sendEvent_loop (xs @ ys) ev m cs = sendEvent_loop ys ev m (sendEvent_loop xs ev m cs)"
  by (induction xs arbitrary: cs) simp_all

lemma sendEvent_loop_other:
  "c \<notin> ch ` set nfs \<Longrightarrow> sendEvent_loop nfs ev m cs c = cs c"
  by (induction nfs arbitrary: cs) (auto simp: try_send_def)

lemma double_subscription_delivers_twice:
  assumes wf: "len (notifiers w) \<le> length (arr (notifiers w))"
    and fresh: "c \<notin> ch ` set (elems (notifiers w))"
    and A: "A AND m \<noteq> 0" and B: "B AND m \<noteq> 0"
    and room: "length (buf (cs c)) + 2 \<le> cap (cs c)"
    and w1: "Notify w c A = Inr w1" and w2: "Notify w1 c B = Inr w2"
  shows "buf (snd (sendEvent w2 ev m cs) c) = buf (cs c) @ [ev, ev]"
proof -
  have A0: "A \<noteq> NoEvents" and B0: "B \<noteq> NoEvents" using A B by (auto simp: NoEvents_def)
  have n1: "notifiers w1 = go_append (notifiers w) \<lparr>EventMask = A, ch = c\<rparr>"
    using w1 A0 by (auto simp: Notify_def)
  have n2: "notifiers w2 = go_append (notifiers w1) \<lparr>EventMask = B, ch = c\<rparr>"
    using w2 B0 by (auto simp: Notify_def)
  have wf1: "len (notifiers w1) \<le> length (arr (notifiers w1))"
    unfolding n1 by (rule go_append_props(2)[OF wf])
  have el: "elems (notifiers w2) =
              elems (notifiers w) @ [\<lparr>EventMask = A, ch = c\<rparr>, \<lparr>EventMask = B, ch = c\<rparr>]"
    unfolding n2 go_append_props(4)[OF wf1] unfolding n1 go_append_props(4)[OF wf] by simp
  define cs0 where "cs0 = sendEvent_loop (elems (notifiers w)) ev m cs"
  have c0: "cs0 c = cs c" unfolding cs0_def by (rule sendEvent_loop_other[OF fresh])
  show ?thesis
    using A B room c0
    by (simp add: sendEvent_def el sendEvent_loop_append cs0_def[symmetric] try_send_def)
qed



lemma decimal_42: "decimal 42 = ''42''"
  by (simp add: decimal.simps)

lemma f64_minus_one_not_NaN: "\<not> f64_isNaN f64_minus_one"
  by (simp add: f64_isNaN_def f64_abs_bits_def f64_minus_one_def)

lemma f64_eq_neg_inf: "f64_eq a f64_neg_inf = (a = f64_neg_inf)"
  by (auto simp: f64_eq_def f64_isNaN_def f64_abs_bits_def f64_neg_inf_def)

lemma title_text_demo: "title_text demo_env (w\<lparr>props := demo_props\<rparr>) = ''Game 42FPS''"
  by (simp add: title_text_def demo_env_def demo_props_def Sprintf_d_def decimal_42)

lemma snd_sendEvent_notifiers:
  "notifiers w' = notifiers w \<Longrightarrow> snd (sendEvent w' ev m cs) = snd (sendEvent w ev m cs)"
  by (simp add: sendEvent_def)

lemma lock_discipline_append:
  "lock_discipline ok st (a @ b) =
     (lock_discipline ok st a \<and> lock_discipline ok (foldl lock_after st a) b)"
  by (induction a arbitrary: st) simp_all

lemma blocks_keep_write_lock:
  "\<forall>f \<in> set fs. keeps_write_lock f \<Longrightarrow> keeps_write_lock (blocks fs)"
proof (induction fs)
  case Nil
  then show ?case by (simp add: keeps_write_lock_def blocks_Nil)
next
  case (Cons f fs)
  then have f: "keeps_write_lock f" and fs: "keeps_write_lock (blocks fs)" by simp_all
  show ?case
    unfolding keeps_write_lock_def
  proof (intro allI)
    fix w
    from f have 1: "lock_discipline spec_guard WriteLocked (fst (f w))"
      and 2: "foldl lock_after WriteLocked (fst (f w)) = WriteLocked"
      by (simp_all add: keeps_write_lock_def)
    from fs have 3: "lock_discipline spec_guard WriteLocked (fst (blocks fs (snd (f w))))"
      and 4: "foldl lock_after WriteLocked (fst (blocks fs (snd (f w)))) = WriteLocked"
      by (simp_all add: keeps_write_lock_def)
    show "lock_discipline spec_guard WriteLocked (fst (blocks (f # fs) w)) \<and>
          foldl lock_after WriteLocked (fst (blocks (f # fs) w)) = WriteLocked"
      using 1 2 3 4 by (simp add: fst_blocks_Cons lock_discipline_append)
  qed
qed

lemma block_keeps_write_lock:
  "keeps_write_lock (useProps_Size force width height)"
  "keeps_write_lock (useProps_Pos g force width height)"
  "keeps_write_lock (useProps_CursorPos force)"
  "keeps_write_lock (useProps_Visible force)"
  "keeps_write_lock (useProps_Minimized force)"
  "keeps_write_lock (useProps_VSync force)"
  "keeps_write_lock (useProps_CursorGrabbed force)"
  by (simp_all add: keeps_write_lock_def useProps_Size_def useProps_Pos_def useProps_CursorPos_def
      useProps_Visible_def useProps_Minimized_def useProps_VSync_def useProps_CursorGrabbed_def
      Let_def split_def)

lemma useProps_lock_discipline:
  "lock_discipline spec_guard Unlocked (fst (useProps g p force w))"
proof -
  let ?bs = "[useProps_Size force (fst (Size p)) (snd (Size p)),
              useProps_Pos g force (fst (Size p)) (snd (Size p)),
              useProps_CursorPos force, useProps_Visible force, useProps_Minimized force,
              useProps_VSync force, useProps_CursorGrabbed force]"
  have "keeps_write_lock (blocks ?bs)"
    by (rule blocks_keep_write_lock) (simp add: block_keeps_write_lock)
  then have "lock_discipline spec_guard WriteLocked (fst (blocks ?bs (w\<lparr>props := p\<rparr>)))"
    and "foldl lock_after WriteLocked (fst (blocks ?bs (w\<lparr>props := p\<rparr>))) = WriteLocked"
    by (simp_all add: keeps_write_lock_def)
  then show ?thesis
    by (simp add: fst_useProps updateTitle_def lock_discipline_append)
qed

lemma centering_in_range:
  fixes a b :: int
  assumes "- (2 ^ n) \<le> a" "a < 2 ^ n" "- (2 ^ n) \<le> b" "b < 2 ^ n"
  shows "- (2 ^ n) \<le> go_quo a 2 - go_quo b 2 \<and> go_quo a 2 - go_quo b 2 < 2 ^ n"
proof -
  have qa: "- (2 ^ n) \<le> 2 * go_quo a 2" "2 * go_quo a 2 < 2 ^ n"
    using assms(1,2) by (auto simp: go_quo_def)
  have qb: "- (2 ^ n) \<le> 2 * go_quo b 2" "2 * go_quo b 2 < 2 ^ n"
    using assms(3,4) by (auto simp: go_quo_def)
  from qa qb show ?thesis by linarith
qed

lemma NaN_differs_from_itself: "cursor_differs (f64_NaN, f64_NaN) (f64_NaN, f64_NaN)"
  by (simp add: cursor_differs_def f64_eq_def f64_isNaN_def f64_abs_bits_def f64_NaN_def)

section \<open>Reconciliation\<close>

text \<open>
  Claim C1, as it holds. \<open>useProps\<close> stores the requested properties and sets the
  last known size, position, visibility, minimized state, vsync and cursor grab to the
  requested values; the last known cursor position is the requested one or equal to it
  under Go's \<^verbatim>\<open>==\<close>; the last known title is left as it was. Its native calls are, in
  this order: \<^verbatim>\<open>SetTitle\<close>, always; then one call for each of size, position,
  visibility, minimized state, vsync and cursor grab whose requested value differs from
  the last known one (for every one of them when \<open>force\<close> is set); and one
  \<^verbatim>\<open>SetCursorPosition\<close> when the cursor position differs (or \<open>force\<close>) and neither
  coordinate is \<open>-1\<close>. Running it again with the same properties and without \<open>force\<close>
  makes the \<^verbatim>\<open>SetTitle\<close> call and no other, provided the requested cursor coordinates
  are not NaN (a NaN differs from itself).
\<close>

theorem useProps_reconciles:
  "props (snd (useProps g p force w)) = p \<and>
   Size (last_props (snd (useProps g p force w))) = Size p \<and>
   Pos (last_props (snd (useProps g p force w))) = Pos p \<and>
   Visible (last_props (snd (useProps g p force w))) = Visible p \<and>
   Minimized_p (last_props (snd (useProps g p force w))) = Minimized_p p \<and>
   VSync (last_props (snd (useProps g p force w))) = VSync p \<and>
   CursorGrabbed (last_props (snd (useProps g p force w))) = CursorGrabbed p \<and>
   (CursorPos (last_props (snd (useProps g p force w))) = CursorPos p \<or>
    \<not> cursor_differs (CursorPos p) (CursorPos (last_props (snd (useProps g p force w))))) \<and>
   Title (last_props (snd (useProps g p force w))) = Title (last_props w) \<and>
   native_calls (fst (useProps g p force w)) =
     SetTitle (title_text g (w\<lparr>props := p\<rparr>)) #
     (if force \<or> Size p \<noteq> Size (last_props w) then [SetSize (fst (Size p)) (snd (Size p))] else []) @
     (if force \<or> Pos p \<noteq> Pos (last_props w)
      then [SetPosition (fst (centered g (fst (Size p)) (snd (Size p)) (fst (Pos p)) (snd (Pos p))))
                        (snd (centered g (fst (Size p)) (snd (Size p)) (fst (Pos p)) (snd (Pos p))))]
      else []) @
     (if (force \<or> cursor_differs (CursorPos p) (CursorPos (last_props w))) \<and>
         \<not> f64_eq (fst (CursorPos p)) f64_minus_one \<and> \<not> f64_eq (snd (CursorPos p)) f64_minus_one
      then [SetCursorPosition (fst (CursorPos p)) (snd (CursorPos p))] else []) @
     (if force \<or> Visible p \<noteq> Visible (last_props w)
      then [if Visible p then Show else Hide] else []) @
     (if force \<or> Minimized_p p \<noteq> Minimized_p (last_props w)
      then [if Minimized_p p then Iconify else Restore] else []) @
     (if force \<or> VSync p \<noteq> VSync (last_props w)
      then [SwapInterval (swapInterval w (VSync p))] else []) @
     (if force \<or> CursorGrabbed p \<noteq> CursorGrabbed (last_props w)
      then [SetInputMode_Cursor (if CursorGrabbed p then CursorDisabled else CursorNormal)] else []) \<and>
   (\<not> f64_isNaN (fst (CursorPos p)) \<and> \<not> f64_isNaN (snd (CursorPos p)) \<longrightarrow>
    native_calls (fst (useProps g p False (snd (useProps g p force w)))) =
      [SetTitle (title_text g (w\<lparr>props := p\<rparr>))])"
proof -
  have c: "CursorPos (last_props (snd (useProps g p force w))) = CursorPos p \<or>
    \<not> cursor_differs (CursorPos p) (CursorPos (last_props (snd (useProps g p force w))))"
    by (simp add: useProps_last(8))
  show ?thesis
    by (intro conjI impI useProps_last(1-7) useProps_other(4) useProps_calls c useProps_rerun) simp_all
qed

theorem useProps_reconciles_witness:
  "native_calls (fst (useProps demo_env demo_props True demo_window)) =
     [SetTitle ''Game 42FPS'', SetSize 800 600, SetPosition 560 240, Show, Restore,
      SwapInterval (- 1), SetInputMode_Cursor CursorDisabled] \<and>
   native_calls (fst (useProps demo_env demo_props False demo_window)) =
     [SetTitle ''Game 42FPS'', SetInputMode_Cursor CursorDisabled] \<and>
   \<not> f64_isNaN (fst (CursorPos demo_props)) \<and> \<not> f64_isNaN (snd (CursorPos demo_props)) \<and>
   native_calls (fst (useProps demo_env demo_props False
                        (snd (useProps demo_env demo_props False demo_window)))) =
     [SetTitle ''Game 42FPS''] \<and>
   CursorGrabbed (last_props (snd (useProps demo_env demo_props False demo_window)))"
proof -
  have n: "\<not> f64_isNaN (fst (CursorPos demo_props))" "\<not> f64_isNaN (snd (CursorPos demo_props))"
    by (simp_all add: demo_props_def f64_minus_one_not_NaN)
  have m: "f64_eq f64_minus_one f64_minus_one"
    by (rule f64_eq_refl [OF f64_minus_one_not_NaN])
  have p: "Size demo_props = (800, 600)" "Pos demo_props = (- 1, - 1)"
    "CursorPos demo_props = (f64_minus_one, f64_minus_one)" "Visible demo_props"
    "\<not> Minimized_p demo_props" "VSync demo_props" "CursorGrabbed demo_props"
    by (simp_all add: demo_props_def)
  have l: "Size (last_props demo_window) = (800, 600)" "Pos (last_props demo_window) = (- 1, - 1)"
    "CursorPos (last_props demo_window) = (f64_minus_one, f64_minus_one)"
    "Visible (last_props demo_window)" "\<not> Minimized_p (last_props demo_window)"
    "VSync (last_props demo_window)" "\<not> CursorGrabbed (last_props demo_window)"
    by (simp_all add: demo_props_def demo_window_def new_glfwWindow_def)
  have s: "swapInterval demo_window True = - 1"
    by (simp add: swapInterval_def demo_window_def new_glfwWindow_def demo_env_def)
  have c: "centered demo_env 800 600 (- 1) (- 1) = (560, 240)"
    by (simp add: centered_def demo_env_def go_quo_def)
  from useProps_reconciles [of demo_env demo_props True demo_window]
       useProps_reconciles [of demo_env demo_props False demo_window]
  show ?thesis
    using n m p l s c by (simp add: title_text_demo cursor_differs_def)
qed

text \<open>
  Claim C1 as stated fails for the title: running \<open>useProps\<close> a second time with the
  same properties and without \<open>force\<close> still calls \<^verbatim>\<open>SetTitle\<close>, so the number of native
  calls is one, not zero.
\<close>

theorem useProps_rerun_still_sets_title:
  "native_calls (fst (useProps demo_env demo_props False
                        (snd (useProps demo_env demo_props True demo_window)))) =
     [SetTitle ''Game 42FPS''] \<and>
   native_calls (fst (useProps demo_env demo_props False
                        (snd (useProps demo_env demo_props True demo_window)))) \<noteq> []"
proof -
  have n: "\<not> f64_isNaN (fst (CursorPos demo_props))" "\<not> f64_isNaN (snd (CursorPos demo_props))"
    by (simp_all add: demo_props_def f64_minus_one_not_NaN)
  show ?thesis
    unfolding useProps_rerun [OF n] title_text_demo by simp
qed

text \<open>
  Claim C5. When the requested position is the sentinel \<open>(-1, -1)\<close> and the primary
  monitor reports its video mode, the position handed to \<^verbatim>\<open>SetPosition\<close> is
  \<open>(vmWidth / 2 - width / 2, vmHeight / 2 - height / 2)\<close> for the requested size; the
  call is made when \<open>force\<close> is set or the last known position is not the sentinel, and
  it is the only \<^verbatim>\<open>SetPosition\<close> call. For 1920x1080 and 800x600 it is \<open>(560, 240)\<close>.
\<close>

theorem centered_position:
  assumes "Pos p = (- 1, - 1)" and "Size p = (width, height)"
    and "GetVideoMode g = Inr (vmWidth, vmHeight)"
  shows "filter is_SetPosition (native_calls (fst (useProps g p force w))) =
           (if force \<or> Pos (last_props w) \<noteq> (- 1, - 1)
            then [SetPosition (go_quo vmWidth 2 - go_quo width 2)
                              (go_quo vmHeight 2 - go_quo height 2)]
            else [])"
  using assms by (auto simp: useProps_calls centered_def)

theorem centered_position_witness:
  "Pos demo_props = (- 1, - 1) \<and> Size demo_props = (800, 600) \<and>
   GetVideoMode demo_env = Inr (1920, 1080) \<and>
   filter is_SetPosition (native_calls (fst (useProps demo_env demo_props True demo_window))) =
     [SetPosition 560 240]"
proof -
  have a: "Pos demo_props = (- 1, - 1)" and b: "Size demo_props = (800, 600)"
    by (simp_all add: demo_props_def)
  have c: "GetVideoMode demo_env = Inr (1920, 1080)" by (simp add: demo_env_def)
  from centered_position [OF a b c, of True demo_window] a b c show ?thesis
    by (simp add: go_quo_def)
qed







section \<open>Cursor motion\<close>

text \<open>
  Claim C4, as it holds. After \<open>useProps\<close> has switched cursor grab on (the requested
  value is true and either \<open>force\<close> is set or the last known value was false), the first
  cursor callback publishes nothing, whatever its coordinates; the second callback
  publishes \<open>CursorMoved\<close> with the second sample minus the first in each coordinate and
  the delta flag set, provided the first sample was not \<open>(-Inf, -Inf)\<close>, the value the
  baseline is reset to.
\<close>

theorem cursor_grab_reengagement:
  assumes "CursorGrabbed p" and "force \<or> \<not> CursorGrabbed (last_props w)"
  shows "fst (SetCursorPositionCallback fsub x1 y1 (snd (useProps g p force w)) cs) = [RLock, RUnlock] \<and>
         snd (snd (SetCursorPositionCallback fsub x1 y1 (snd (useProps g p force w)) cs)) = cs \<and>
         (\<not> (x1 = f64_neg_inf \<and> y1 = f64_neg_inf) \<longrightarrow>
          snd (snd (SetCursorPositionCallback fsub x2 y2
                      (fst (snd (SetCursorPositionCallback fsub x1 y1 (snd (useProps g p force w)) cs)))
                      cs)) =
          snd (sendEvent w (CursorMoved (fsub x2 x1) (fsub y2 y1) True) CursorMovedEvents cs))"
proof -
  define w1 where "w1 = snd (useProps g p force w)"
  have g1: "CursorGrabbed (props w1)" using assms(1) by (simp add: w1_def useProps_last)
  have b1: "lastCursorX w1 = f64_neg_inf \<and> lastCursorY w1 = f64_neg_inf"
    unfolding w1_def by (rule useProps_grab_baseline) (use assms in auto)
  have n1: "notifiers w1 = notifiers w" by (simp add: w1_def useProps_other)
  define w2 where "w2 = w1\<lparr>lastCursorX := x1, lastCursorY := y1\<rparr>"
  have r1: "SetCursorPositionCallback fsub x1 y1 w1 cs = ([RLock, RUnlock], w2, cs)"
    using g1 b1 by (simp add: SetCursorPositionCallback_def Let_def f64_eq_neg_inf w2_def)
  have g2: "CursorGrabbed (props w2)" using g1 by (simp add: w2_def)
  have r2: "snd (snd (SetCursorPositionCallback fsub x2 y2 w2 cs)) =
            snd (sendEvent w (CursorMoved (fsub x2 x1) (fsub y2 y1) True) CursorMovedEvents cs)"
    if "\<not> (x1 = f64_neg_inf \<and> y1 = f64_neg_inf)"
  proof -
    have "snd (snd (SetCursorPositionCallback fsub x2 y2 w2 cs)) =
          snd (sendEvent (w2\<lparr>lastCursorX := x2, lastCursorY := y2\<rparr>)
                 (CursorMoved (fsub x2 x1) (fsub y2 y1) True) CursorMovedEvents cs)"
      using g2 that
      by (auto simp: SetCursorPositionCallback_def Let_def f64_eq_neg_inf w2_def split_def)
    also have "\<dots> = snd (sendEvent w (CursorMoved (fsub x2 x1) (fsub y2 y1) True) CursorMovedEvents cs)"
      by (rule snd_sendEvent_notifiers) (simp add: w2_def n1)
    finally show ?thesis .
  qed
  from r1 r2 show ?thesis unfolding w1_def[symmetric] by simp
qed

theorem cursor_grab_reengagement_witness:
  "CursorGrabbed demo_props \<and> \<not> CursorGrabbed (last_props (demo_window\<lparr>notifiers := one_subscriber\<rparr>)) \<and>
   snd (snd (SetCursorPositionCallback (-) 3 4
      (snd (useProps demo_env demo_props False (demo_window\<lparr>notifiers := one_subscriber\<rparr>)))
      empty_chans)) = empty_chans \<and>
   3 \<noteq> f64_neg_inf \<and>
   buf (snd (snd (SetCursorPositionCallback (-) 10 6
      (fst (snd (SetCursorPositionCallback (-) 3 4
         (snd (useProps demo_env demo_props False (demo_window\<lparr>notifiers := one_subscriber\<rparr>)))
         empty_chans)))
      empty_chans)) 7) = [CursorMoved 7 2 True]"
proof -
  let ?w = "demo_window\<lparr>notifiers := one_subscriber\<rparr>"
  have a: "CursorGrabbed demo_props" by (simp add: demo_props_def)
  have b: "False \<or> \<not> CursorGrabbed (last_props ?w)"
    by (simp add: demo_window_def new_glfwWindow_def demo_props_def)
  have n: "(3 :: f64) \<noteq> f64_neg_inf" by (simp add: f64_neg_inf_def)
  have s: "buf (snd (sendEvent ?w (CursorMoved 7 2 True) CursorMovedEvents empty_chans) 7) =
             [CursorMoved 7 2 True]"
    by (simp add: sendEvent_def one_subscriber_def elems_def AllEvents_def CursorMovedEvents_def
        try_send_def empty_chans_def)
  from cursor_grab_reengagement [OF a b, of "(-)" 3 4 demo_env empty_chans 10 6] a b n s
  show ?thesis by simp
qed

text \<open>
  Claim C4 as stated fails when the first sample is \<open>(-Inf, -Inf)\<close>: the callback stores
  it as the previous sample, the second callback takes it for the reset baseline and
  publishes nothing, although a subscriber with room is listening. (The subtraction
  passed here is that of the bit patterns; it is not reached.)
\<close>

theorem second_callback_suppressed_after_neg_inf_sample:
  "snd (snd (SetCursorPositionCallback (-) 10 6
      (fst (snd (SetCursorPositionCallback (-) f64_neg_inf f64_neg_inf
         (snd (useProps demo_env demo_props False (demo_window\<lparr>notifiers := one_subscriber\<rparr>)))
         empty_chans)))
      empty_chans)) = empty_chans \<and>
   buf (empty_chans 7) = [] \<and>
   buf (snd (sendEvent (demo_window\<lparr>notifiers := one_subscriber\<rparr>)
               (CursorMoved (10 - f64_neg_inf) (6 - f64_neg_inf) True) CursorMovedEvents empty_chans) 7)
     \<noteq> []"
proof -
  let ?w = "demo_window\<lparr>notifiers := one_subscriber\<rparr>"
  let ?w1 = "snd (useProps demo_env demo_props False ?w)"
  have g1: "CursorGrabbed (props ?w1)" by (simp add: useProps_last demo_props_def)
  have b1: "lastCursorX ?w1 = f64_neg_inf \<and> lastCursorY ?w1 = f64_neg_inf"
    by (rule useProps_grab_baseline)
       (simp add: demo_window_def new_glfwWindow_def demo_props_def)
  have r1: "SetCursorPositionCallback (-) f64_neg_inf f64_neg_inf ?w1 empty_chans =
              ([RLock, RUnlock], ?w1\<lparr>lastCursorX := f64_neg_inf, lastCursorY := f64_neg_inf\<rparr>,
               empty_chans)"
    using g1 b1 by (simp add: SetCursorPositionCallback_def Let_def f64_eq_neg_inf)
  have r2: "snd (snd (SetCursorPositionCallback (-) 10 6
              (?w1\<lparr>lastCursorX := f64_neg_inf, lastCursorY := f64_neg_inf\<rparr>) empty_chans)) =
            empty_chans"
    using g1 by (simp add: SetCursorPositionCallback_def Let_def f64_eq_neg_inf)
  have s: "buf (snd (sendEvent ?w (CursorMoved (10 - f64_neg_inf) (6 - f64_neg_inf) True)
                       CursorMovedEvents empty_chans) 7) \<noteq> []"
    by (simp add: sendEvent_def one_subscriber_def elems_def AllEvents_def CursorMovedEvents_def
        try_send_def empty_chans_def)
  from r1 r2 s show ?thesis by (simp add: empty_chans_def)
qed

section \<open>Locking\<close>

text \<open>
  Claim C8, as it holds. \<open>Props_get\<close> reads the requested properties under the
  read lock; \<open>useProps\<close> writes the pair only while it holds the write lock (it releases
  it around native calls and takes it back before the next write); the callbacks call
  the setters of both copies while they hold the read lock, not the write lock.
\<close>

theorem lock_discipline_of_window:
  "lock_discipline spec_guard Unlocked (fst (Props_get w)) \<and>
   lock_discipline spec_guard Unlocked (fst (useProps g p force w)) \<and>
   lock_discipline read_guard Unlocked (fst (SetIconifyCallback iconify w cs)) \<and>
   lock_discipline read_guard Unlocked (fst (SetFocusCallback focused w cs)) \<and>
   lock_discipline read_guard Unlocked (fst (SetPositionCallback x y w cs)) \<and>
   lock_discipline read_guard Unlocked (fst (SetSizeCallback width height w cs)) \<and>
   lock_discipline read_guard Unlocked (fst (SetFramebufferSizeCallback width height w cs)) \<and>
   lock_discipline read_guard Unlocked (fst (SetCursorPositionCallback fsub cx cy w cs))"
  by (simp add: useProps_lock_discipline)
     (simp add: Props_get_def SetIconifyCallback_def SetFocusCallback_def SetPositionCallback_def
       SetSizeCallback_def SetFramebufferSizeCallback_def SetCursorPositionCallback_def
       sendEvent_def Let_def split_def)

theorem lock_discipline_of_window_witness:
  "fst (SetSizeCallback 640 480 demo_window empty_chans) =
     [RLock, Mutates Last, Mutates Requested, RUnlock, RLock, RUnlock] \<and>
   lock_discipline read_guard Unlocked (fst (SetSizeCallback 640 480 demo_window empty_chans)) \<and>
   fst (useProps demo_env demo_props False demo_window) =
     [Lock, Mutates Requested, Native (SetTitle ''Game 42FPS''), Mutates Last, Unlock,
      Native (SetInputMode_Cursor CursorDisabled), Lock, Unlock] \<and>
   lock_discipline spec_guard Unlocked (fst (useProps demo_env demo_props False demo_window))"
proof -
  have 1: "fst (SetSizeCallback 640 480 demo_window empty_chans) =
     [RLock, Mutates Last, Mutates Requested, RUnlock, RLock, RUnlock]"
    by (simp add: SetSizeCallback_def sendEvent_def Let_def split_def)
  from lock_discipline_of_window
         [where w = demo_window and g = demo_env and p = demo_props and force = False
            and cs = empty_chans and width = 640 and height = 480]
  have 2: "lock_discipline read_guard Unlocked (fst (SetSizeCallback 640 480 demo_window empty_chans))"
    and 3: "lock_discipline spec_guard Unlocked (fst (useProps demo_env demo_props False demo_window))"
    by simp_all
  have 4: "fst (useProps demo_env demo_props False demo_window) =
     [Lock, Mutates Requested, Native (SetTitle ''Game 42FPS''), Mutates Last, Unlock,
      Native (SetInputMode_Cursor CursorDisabled), Lock, Unlock]"
    by (simp add: fst_useProps blocks_fst_snd block_states updateTitle_def title_text_demo
        useProps_Size_def useProps_Pos_def useProps_CursorPos_def useProps_Visible_def
        useProps_Minimized_def useProps_VSync_def useProps_CursorGrabbed_def Let_def split_def
        demo_window_def new_glfwWindow_def demo_props_def f64_eq_refl f64_minus_one_not_NaN
        title_text_def demo_env_def Sprintf_d_def decimal_42)
  from 1 2 3 4 show ?thesis by simp
qed

text \<open>
  Claim C8 as stated fails for the callbacks: the iconify callback writes both copies
  between \<^verbatim>\<open>w.RLock()\<close> and \<^verbatim>\<open>w.RUnlock()\<close>, so its trace breaks the rule that a write
  needs the write lock.
\<close>

theorem callback_mutates_under_read_lock:
  "\<not> lock_discipline spec_guard Unlocked (fst (SetIconifyCallback True demo_window empty_chans))"
  by (simp add: SetIconifyCallback_def sendEvent_def Let_def split_def)

section \<open>Publishing\<close>

text \<open>
  Claim C3. Publishing never blocks and drops the event for a subscriber whose queue is
  full: \<open>sendEvent\<close> is a total function whose trace is the read lock taken and
  released, and a channel that is at capacity before the call holds the same events
  after it, whatever the subscriptions and the mask. \<open>sendEvent\<close> returns no window:
  it reads \<^verbatim>\<open>w.notifiers\<close> and writes nothing, so the subscription list is the one it
  was called with.
\<close>

theorem sendEvent_drops_on_full_queue:
  "cap (cs c) \<le> length (buf (cs c)) \<Longrightarrow>
   snd (sendEvent w ev m cs) c = cs c \<and> fst (sendEvent w ev m cs) = [RLock, RUnlock]"
  by (simp add: sendEvent_def sendEvent_loop_full)

theorem sendEvent_drops_on_full_queue_witness:
  "cap (full_chans 7) \<le> length (buf (full_chans 7)) \<and>
   elems (notifiers (demo_window\<lparr>notifiers := one_subscriber\<rparr>)) = [\<lparr>EventMask = AllEvents, ch = 7\<rparr>] \<and>
   AllEvents AND CloseEvents \<noteq> 0 \<and>
   snd (sendEvent (demo_window\<lparr>notifiers := one_subscriber\<rparr>) Close CloseEvents full_chans) 7 =
     \<lparr>cap = 1, buf = [Damaged]\<rparr>"
  using sendEvent_drops_on_full_queue
          [of full_chans 7 "demo_window\<lparr>notifiers := one_subscriber\<rparr>" Close CloseEvents]
  by (simp add: full_chans_def one_subscriber_def elems_def AllEvents_def CloseEvents_def)

text \<open>
  Claim C2. Subscribing one channel twice and publishing an event that both masks match
  puts the event on the channel twice (when nothing else was subscribed for the channel
  and it has room for two events). Unsubscribing with \<open>NoEvents\<close> afterwards does not
  remove the two subscriptions: \<open>deleteNotifiers\<close> searches \<^verbatim>\<open>w.notifiers\<close>, whose length
  is still the old one, instead of the shortened \<^verbatim>\<open>s\<close>, finds the stale last cell again
  and slices \<^verbatim>\<open>s\<close> out of range, so \<open>Notify\<close> panics.
\<close>

theorem Notify_twice_then_NoEvents_panics:
  assumes wf: "len (notifiers w) \<le> length (arr (notifiers w))"
    and fresh: "c \<notin> ch ` set (elems (notifiers w))"
    and A: "A AND m \<noteq> 0" and B: "B AND m \<noteq> 0"
    and room: "length (buf (cs c)) + 2 \<le> cap (cs c)"
  shows "\<exists>w1 w2. Notify w c A = Inr w1 \<and> Notify w1 c B = Inr w2 \<and>
                 buf (snd (sendEvent w2 ev m cs) c) = buf (cs c) @ [ev, ev] \<and>
                 Notify w2 c NoEvents = Inl SliceBoundsOutOfRange"
proof -
  have A0: "A \<noteq> NoEvents" and B0: "B \<noteq> NoEvents" using A B by (auto simp: NoEvents_def)
  define w1 where "w1 = w\<lparr>notifiers := go_append (notifiers w) \<lparr>EventMask = A, ch = c\<rparr>\<rparr>"
  define w2 where "w2 = w1\<lparr>notifiers := go_append (notifiers w1) \<lparr>EventMask = B, ch = c\<rparr>\<rparr>"
  have n1: "Notify w c A = Inr w1" using A0 by (simp add: Notify_def w1_def)
  have n2: "Notify w1 c B = Inr w2" using B0 by (simp add: Notify_def w2_def)
  have wf1: "len (notifiers w1) \<le> length (arr (notifiers w1))"
    unfolding w1_def using go_append_props(2)[OF wf] by simp
  have wf2: "len (notifiers w2) \<le> length (arr (notifiers w2))"
    unfolding w2_def using go_append_props(2)[OF wf1] by simp
  have l2: "len (notifiers w2) = len (notifiers w1) + 1"
    unfolding w2_def using go_append_props(1)[OF wf1] by simp
  have "arr (notifiers w2) ! len (notifiers w1) = \<lparr>EventMask = B, ch = c\<rparr>"
    unfolding w2_def using go_append_props(3)[OF wf1] by simp
  then have last: "ch (arr (notifiers w2) ! (len (notifiers w2) - 1)) = c"
    using l2 by simp
  have "deleteNotifiers_loop (arr (notifiers w2)) (len (notifiers w2)) (len (notifiers w2)) c =
          Inl SliceBoundsOutOfRange"
    by (rule deleteNotifiers_loop_panics) (use l2 wf2 last in simp_all)
  then have n3: "Notify w2 c NoEvents = Inl SliceBoundsOutOfRange"
    by (simp add: Notify_def deleteNotifiers_def)
  have d: "buf (snd (sendEvent w2 ev m cs) c) = buf (cs c) @ [ev, ev]"
    using double_subscription_delivers_twice
            [where w = w and c = c and A = A and B = B and m = m and cs = cs and ?w1.0 = w1
               and ?w2.0 = w2 and ev = ev]
          wf fresh A B room n1 n2
    by blast
  from n1 n2 n3 d show ?thesis by blast
qed

theorem Notify_twice_then_NoEvents_panics_witness:
  "len (notifiers demo_window) \<le> length (arr (notifiers demo_window)) \<and>
   7 \<notin> ch ` set (elems (notifiers demo_window)) \<and>
   CloseEvents AND CloseEvents \<noteq> 0 \<and> AllEvents AND CloseEvents \<noteq> 0 \<and>
   length (buf (empty_chans 7)) + 2 \<le> cap (empty_chans 7) \<and>
   (\<exists>w1 w2. Notify demo_window 7 CloseEvents = Inr w1 \<and> Notify w1 7 AllEvents = Inr w2 \<and>
            buf (snd (sendEvent w2 Close CloseEvents empty_chans) 7) = [Close, Close] \<and>
            Notify w2 7 NoEvents = Inl SliceBoundsOutOfRange)"
proof -
  have wf: "len (notifiers demo_window) \<le> length (arr (notifiers demo_window))"
    and fresh: "7 \<notin> ch ` set (elems (notifiers demo_window))"
    by (simp_all add: demo_window_def new_glfwWindow_def nil_slice_def elems_def)
  have A: "CloseEvents AND CloseEvents \<noteq> 0" and B: "AllEvents AND CloseEvents \<noteq> 0"
    by (simp_all add: CloseEvents_def AllEvents_def)
  have room: "length (buf (empty_chans 7)) + 2 \<le> cap (empty_chans 7)"
    by (simp add: empty_chans_def)
  from Notify_twice_then_NoEvents_panics
         [where w = demo_window and c = 7 and A = CloseEvents and B = AllEvents
            and m = CloseEvents and cs = empty_chans and ev = Close]
       wf fresh A B room
  have "\<exists>w1 w2. Notify demo_window 7 CloseEvents = Inr w1 \<and> Notify w1 7 AllEvents = Inr w2 \<and>
            buf (snd (sendEvent w2 Close CloseEvents empty_chans) 7) = [Close, Close] \<and>
            Notify w2 7 NoEvents = Inl SliceBoundsOutOfRange"
    by (simp add: empty_chans_def)
  with wf fresh A B room show ?thesis by blast
qed

section \<open>Initialisation, teardown and the entry point\<close>

text \<open>
  Claim C9. \<open>doInit\<close> with the flag set returns nil and makes no call; \<open>doExit\<close> with
  the flag clear returns nil and makes no call; whenever \<open>doInit\<close> returns nil the flag
  is set afterwards, and whenever \<open>doExit\<close> returns nil the flag is clear afterwards.
\<close>

theorem doInit_doExit_idempotent:
  "doInit e True = ([], None, True) \<and>
   doExit e False = ([], None, False) \<and>
   (\<forall>t b'. doInit e b = (t, None, b') \<longrightarrow> b') \<and>
   (\<forall>t b'. doExit e b = (t, None, b') \<longrightarrow> \<not> b')"
  by (auto simp: doInit_def doExit_def Let_def split: option.splits if_splits)

theorem doInit_doExit_idempotent_witness:
  "doInit demo_init_env False =
     ([Native glfw_Init, Native (WindowHint Hint_Visible 0),
       Native (CreateWindow 128 128 ''assets'' False), Native MakeContextCurrent,
       Native glfwNewDevice, Native DetachCurrentContext, Go_assetLoader, Go_pollEvents],
      None, True) \<and>
   doExit demo_init_env True =
     ([Signal_assetExit, Signal_pollerExit, Native glfw_Terminate], None, False) \<and>
   doInit demo_init_env True = ([], None, True) \<and>
   doExit demo_init_env False = ([], None, False)"
  using doInit_doExit_idempotent [of demo_init_env False]
        doInit_doExit_idempotent [of demo_init_env True]
  by (simp add: doInit_def doExit_def demo_init_env_def)

text \<open>
  Claim C10. With a nil loop function \<open>Run\<close> panics with the message
  \<^verbatim>\<open>window: nil graphics loop function!\<close> and its trace holds no native call, whereas
  with a loop function the first native call is \<^verbatim>\<open>glfw.Init\<close>; with nil properties and a
  loop function \<open>Run\<close> constructs the default properties and goes on as \<^verbatim>\<open>doRun\<close> does
  on them.
\<close>

theorem Run_nil_loop_panics:
  "snd (Run g newProps None p) = Inl (Panic ''window: nil graphics loop function!'') \<and>
   native_calls (fst (Run g newProps None p)) = [] \<and>
   Run g newProps (Some f) None =
     (LockOSThread # NewProps_call # fst (doRun_setup g newProps newProps),
      snd (doRun_setup g newProps newProps)) \<and>
   hd (native_calls (fst (Run g newProps (Some f) p))) = glfw_Init"
  by (auto simp: Run_def doRun_setup_def native_calls_append split_def Let_def split: option.splits)

theorem Run_nil_loop_panics_witness:
  "Run demo_env demo_props (None :: unit option) None =
     ([LockOSThread, NewProps_call, UnlockOSThread],
      Inl (Panic ''window: nil graphics loop function!'')) \<and>
   native_calls (fst (Run demo_env demo_props (None :: unit option) None)) = [] \<and>
   hd (native_calls (fst (Run demo_env demo_props (Some ()) None))) = glfw_Init"
  using Run_nil_loop_panics [where g = demo_env and newProps = demo_props and p = None and f = "()"]
  by (simp add: Run_def split_def Let_def)

end
